theory Spec2Isabelle
  imports Main "HOL-Library.Word"
begin

section \<open>Data model\<close>

text \<open>
  The token source of github.com/bakins/iap-token-source in its two variants: the signing
  flow (\<open>New(audience, opts...)\<close>), which signs an assertion and exchanges it at the
  token endpoint, and the metadata-integrated variant (\<open>New(ctx, audience, filename)\<close>),
  which searches for credentials and falls back to the metadata service. The libraries the
  package calls (clock, signer, parsers, files, HTTP) are the fields of an environment;
  every function that calls out takes the history of calls and returns it extended.
\<close>


text \<open>
  Times are nanoseconds since the Unix epoch (\<open>time.Time\<close>); a \<open>time.Duration\<close> is a
  signed 64-bit count of nanoseconds, so arithmetic on durations wraps around.
\<close>

type_synonym time = int
type_synonym Duration = "64 word"

definition Second :: Duration where
  "Second = 1000000000"

definition Minute :: Duration where
  "Minute = 60 * Second"

definition Hour :: Duration where
  "Hour = 60 * Minute"

definition time_Add :: "time \<Rightarrow> Duration \<Rightarrow> time" where
  "time_Add t d = t + sint d"

definition time_Unix :: "time \<Rightarrow> int" where
  "time_Unix t = t div 1000000000"

text \<open>
  A Go \<open>error\<close>: \<open>Err\<close> is an error made by \<open>errors.New\<close> or handed back by a library,
  \<open>Wrap e msg\<close> is \<open>errors.Wrap(e, msg)\<close> (and \<open>xerrors.Errorf\<close> with a format
  that ends in \<open>": %w"\<close>), \<open>Panic\<close> is a nil dereference.
\<close>

datatype err = Err string | Wrap err string | Panic string

datatype rsa_PrivateKey = RSAPrivateKey string

datatype parsed_key = RSAKey rsa_PrivateKey | OtherKey string

record oauth2_Token =
  AccessToken :: string
  TokenType :: string
  Expiry :: time

record jws_ClaimSet =
  Iss :: string
  Aud :: string
  Iat :: int
  Exp :: int
  PrivateClaims :: "(string \<times> string) list"

record jws_Header =
  Algorithm :: string
  Typ :: string

record jwt_Config =
  Email :: string
  PrivateKey :: string
  Scopes :: "string list"
  UseIDToken :: bool
  cfg_PrivateClaims :: "(string \<times> string) list"

record http_Response =
  StatusCode :: int
  Body :: "err + string"

text \<open>The anonymous struct the response body is unmarshalled into.\<close>

record token_json =
  json_TokenType :: string
  json_IDToken :: string
  json_ExpiresIn :: "64 word"

type_synonym url_Values = "(string \<times> string list) list"

definition values_Set :: "string \<Rightarrow> string \<Rightarrow> url_Values \<Rightarrow> url_Values" where
  "values_Set k v vs = (k, [v]) # filter (\<lambda>p. fst p \<noteq> k) vs"

text \<open>
  The calls a token source makes to its collaborators, in order. The world is the history
  of the calls made so far; the answer to a call may depend on how many came before it.
\<close>

datatype event =
    EvNow
  | EvEncode jws_Header jws_ClaimSet rsa_PrivateKey
  | EvPostForm string url_Values
  | EvMetadataGet string

type_synonym world = "event list"

type_synonym PostFormer = "nat \<Rightarrow> string \<Rightarrow> url_Values \<Rightarrow> err + http_Response"

datatype stat_result = StatOK | StatNotExist err | StatError err

text \<open>
  The libraries and the operating system the package calls. \<open>fmt_w\<close> is how
  \<open>fmt.Sprintf\<close> prints an error under the verb \<open>%w\<close>, which it does not know.
\<close>

record env =
  clock :: "nat \<Rightarrow> time"
  jws_Encode :: "jws_Header \<Rightarrow> jws_ClaimSet \<Rightarrow> rsa_PrivateKey \<Rightarrow> err + string"
  json_Unmarshal :: "string \<Rightarrow> err + token_json"
  pem_Decode :: "string \<Rightarrow> string option"
  ParsePKCS8PrivateKey :: "string \<Rightarrow> err + parsed_key"
  ParsePKCS1PrivateKey :: "string \<Rightarrow> err + rsa_PrivateKey"
  JWTConfigFromJSON :: "string \<Rightarrow> string list \<Rightarrow> err + jwt_Config"
  ReadFile :: "string \<Rightarrow> err + string"
  Getenv :: "string \<Rightarrow> string"
  Stat :: "string \<Rightarrow> stat_result"
  GOOS :: string
  filepath_Join :: "string list \<Rightarrow> string"
  OnGCE :: bool
  metadata_Get :: "nat \<Rightarrow> string \<Rightarrow> err + string"
  httpClient :: PostFormer
  expiryDelta :: int
  fmt_w :: "err \<Rightarrow> string"

definition time_Now :: "env \<Rightarrow> world \<Rightarrow> time \<times> world" where
  "time_Now e w = (clock e (length w), w @ [EvNow])"

definition Encode :: "env \<Rightarrow> jws_Header \<Rightarrow> jws_ClaimSet \<Rightarrow> rsa_PrivateKey \<Rightarrow> world
    \<Rightarrow> (err + string) \<times> world" where
  "Encode e h c k w = (jws_Encode e h c k, w @ [EvEncode h c k])"

definition PostForm :: "PostFormer \<Rightarrow> string \<Rightarrow> url_Values \<Rightarrow> world
    \<Rightarrow> (err + http_Response) \<times> world" where
  "PostForm p u v w = (p (length w) u v, w @ [EvPostForm u v])"

definition Get :: "env \<Rightarrow> string \<Rightarrow> world \<Rightarrow> (err + string) \<times> world" where
  "Get e suffix w = (metadata_Get e (length w) suffix, w @ [EvMetadataGet suffix])"

section \<open>The signing flow\<close>

definition TokenURI :: string where
  "TokenURI = ''https://www.googleapis.com/oauth2/v4/token''"

text \<open>
  \<open>reuseTokenSource\<close> is what \<open>oauth2.ReuseTokenSource(tok, ts)\<close> holds: the cached token
  and the source of new ones. The source \<open>ts\<close> is a key and a pointer back to the \<open>IAP\<close>
  that owns it, so the key alone stands for it.
\<close>

record 'src reuseTokenSource =
  t :: "oauth2_Token option"
  new :: 'src

record IAP =
  audience :: string
  jwt :: "jwt_Config option"
  postFormer :: PostFormer
  tokenSource :: "rsa_PrivateKey reuseTokenSource option"

definition tokenSource_Token :: "env \<Rightarrow> rsa_PrivateKey \<Rightarrow> IAP \<Rightarrow> world
    \<Rightarrow> (err + oauth2_Token) \<times> world" where
  "tokenSource_Token e key i w0 =
    (let (iat, w1) = time_Now e w0;
         exp = time_Add iat Hour
     in case jwt i of
          None \<Rightarrow> (Inl (Panic ''nil pointer dereference''), w1)
        | Some j \<Rightarrow>
           (let cs = \<lparr>Iss = Email j, Aud = TokenURI, Iat = time_Unix iat, Exp = time_Unix exp,
                      PrivateClaims = [(''target_audience'', audience i)]\<rparr>;
                jwsHeader = \<lparr>Algorithm = ''RS256'', Typ = ''JWT''\<rparr>;
                (r, w2) = Encode e jwsHeader cs key w1
            in case r of
                 Inl er \<Rightarrow> (Inl (Wrap er ''failed to encode request''), w2)
               | Inr msg \<Rightarrow>
                  (let v = values_Set ''assertion'' msg
                             (values_Set ''grant_type''
                                ''urn:ietf:params:oauth:grant-type:jwt-bearer'' []);
                       (r2, w3) = PostForm (postFormer i) TokenURI v w2
                   in case r2 of
                        Inl er \<Rightarrow> (Inl (Wrap er ''failed to POST token request''), w3)
                      | Inr resp \<Rightarrow>
                         (case Body resp of
                            Inl er \<Rightarrow> (Inl (Wrap er ''failed to read response body''), w3)
                          | Inr body \<Rightarrow>
                             (case json_Unmarshal e body of
                                Inl er \<Rightarrow>
                                  (Inl (Wrap er ''failed to unmarshal request body''), w3)
                              | Inr tj \<Rightarrow>
                                 (let tokenType = (if json_TokenType tj = '''' then ''Bearer''
                                                   else json_TokenType tj);
                                      expiry = (if json_ExpiresIn tj \<noteq> 0
                                                then time_Add iat (json_ExpiresIn tj * Second)
                                                else exp)
                                  in (Inr \<lparr>AccessToken = json_IDToken tj,
                                           TokenType = tokenType,
                                           Expiry = expiry\<rparr>, w3)))))))"

definition parseKey :: "env \<Rightarrow> string \<Rightarrow> err + rsa_PrivateKey" where
  "parseKey e key =
    (case pem_Decode e key of
       None \<Rightarrow> Inl (Err ''invalid private key data'')
     | Some block \<Rightarrow>
        (case (case ParsePKCS8PrivateKey e block of
                 Inl _ \<Rightarrow>
                   (case ParsePKCS1PrivateKey e block of
                      Inl er \<Rightarrow>
                        Inl (Wrap er ''private key should be a PEM or plain PKCS1 or PKCS8'')
                    | Inr k \<Rightarrow> Inr (RSAKey k))
               | Inr pk \<Rightarrow> Inr pk) of
           Inl er \<Rightarrow> Inl er
         | Inr (RSAKey parsed) \<Rightarrow> Inr parsed
         | Inr (OtherKey _) \<Rightarrow> Inl (Err ''private key is invalid'')))"

text \<open>
  An \<open>Option\<close> is a function on the \<open>IAP\<close> under construction that may fail; \<open>New\<close>
  gives up at the first failure, so a failing option has no state to hand back.
\<close>

type_synonym Option = "IAP \<Rightarrow> err + IAP"

definition WithPostFormer :: "PostFormer \<Rightarrow> Option" where
  "WithPostFormer p = (\<lambda>i. Inr (i\<lparr>postFormer := p\<rparr>))"

definition WithServiceAccount :: "env \<Rightarrow> string \<Rightarrow> Option" where
  "WithServiceAccount e json = (\<lambda>i.
     case JWTConfigFromJSON e json [audience i] of
       Inl er \<Rightarrow> Inl (Wrap er ''failed to create JWT config'')
     | Inr j \<Rightarrow> Inr (i\<lparr>jwt := Some j\<rparr>))"

definition WithServiceAccountFile :: "env \<Rightarrow> string \<Rightarrow> Option" where
  "WithServiceAccountFile e filename = (\<lambda>i.
     case ReadFile e filename of
       Inl er \<Rightarrow> Inl (Wrap er (''failed to read '' @ filename))
     | Inr json \<Rightarrow>
        (case WithServiceAccount e json i of
           Inl er \<Rightarrow> Inl (Wrap er (''failed to create JWT config from '' @ filename))
         | Inr i' \<Rightarrow> Inr i'))"

fun apply_opts :: "Option list \<Rightarrow> IAP \<Rightarrow> err + IAP" where
  "apply_opts [] i = Inr i"
| "apply_opts (opt # opts) i =
     (case opt i of
        Inl er \<Rightarrow> Inl (Wrap er ''option failed'')
      | Inr i' \<Rightarrow> apply_opts opts i')"

text \<open>The first half of \<open>New\<close>: the options, then the credentials file of the environment.\<close>

definition New_config :: "env \<Rightarrow> string \<Rightarrow> Option list \<Rightarrow> err + IAP" where
  "New_config e aud opts =
    (case apply_opts opts \<lparr>audience = aud, jwt = None, postFormer = httpClient e,
                           tokenSource = None\<rparr> of
       Inl er \<Rightarrow> Inl er
     | Inr i \<Rightarrow>
        (if jwt i = None then
           (let filename = Getenv e ''GOOGLE_APPLICATION_CREDENTIALS''
            in if filename = '''' then
                 Inl (Err (''no ServiceAccount option set and '' @
                           ''GOOGLE_APPLICATION_CREDENTIALS is not set''))
               else WithServiceAccountFile e filename i)
         else Inr i))"

definition New :: "env \<Rightarrow> string \<Rightarrow> Option list \<Rightarrow> world \<Rightarrow> (err + IAP) \<times> world" where
  "New e aud opts w =
    (case New_config e aud opts of
       Inl er \<Rightarrow> (Inl er, w)
     | Inr i \<Rightarrow>
        (case jwt i of
           None \<Rightarrow> (Inl (Panic ''nil pointer dereference''), w)
         | Some j \<Rightarrow>
            (case parseKey e (PrivateKey j) of
               Inl er \<Rightarrow> (Inl (Wrap er ''failed to parse private key''), w)
             | Inr key \<Rightarrow>
                (let (r, w1) = tokenSource_Token e key i w
                 in case r of
                      Inl er \<Rightarrow> (Inl (Wrap er ''failed to get token''), w1)
                    | Inr tok \<Rightarrow>
                        (Inr (i\<lparr>tokenSource := Some \<lparr>t = Some tok, new = key\<rparr>\<rparr>), w1)))))"

section \<open>The cached token source\<close>

text \<open>
  Modelled from the spec: \<open>oauth2.ReuseTokenSource\<close> belongs to golang.org/x/oauth2 and
  its method \<open>Token\<close> is not among the sources. The spec (4.4): it "returns the currently
  cached token unless it is unset or within a defined safety margin of its expiry, in which
  case it synchronously invokes the Token Exchanger, stores the result, and returns it".
  The safety margin is \<open>expiryDelta\<close> of the environment, in nanoseconds. A failed
  exchange leaves the cache as it was.
\<close>

definition token_valid :: "int \<Rightarrow> oauth2_Token \<Rightarrow> time \<Rightarrow> bool" where
  "token_valid margin tok now = (\<not> Expiry tok - margin < now)"

definition refresh :: "(world \<Rightarrow> (err + oauth2_Token) \<times> world) \<Rightarrow> oauth2_Token option \<Rightarrow> world
    \<Rightarrow> (err + oauth2_Token) \<times> oauth2_Token option \<times> world" where
  "refresh fetch cached w =
    (let (r, w1) = fetch w
     in case r of
          Inl er \<Rightarrow> (Inl er, cached, w1)
        | Inr tok \<Rightarrow> (Inr tok, Some tok, w1))"

definition reuseTokenSource_Token :: "env \<Rightarrow> (world \<Rightarrow> (err + oauth2_Token) \<times> world)
    \<Rightarrow> oauth2_Token option \<Rightarrow> world
    \<Rightarrow> (err + oauth2_Token) \<times> oauth2_Token option \<times> world" where
  "reuseTokenSource_Token e fetch cached w =
    (case cached of
       None \<Rightarrow> refresh fetch cached w
     | Some tok \<Rightarrow>
        (let (now, w1) = time_Now e w
         in if token_valid (expiryDelta e) tok now then (Inr tok, cached, w1)
            else refresh fetch cached w1))"

text \<open>\<open>IAP.Token\<close> of the signing flow; the \<open>IAP\<close> comes back with its cache updated.\<close>

definition Token :: "env \<Rightarrow> IAP \<Rightarrow> world \<Rightarrow> (err + oauth2_Token) \<times> IAP \<times> world" where
  "Token e i w =
    (case tokenSource i of
       None \<Rightarrow> (Inl (Panic ''nil pointer dereference''), i, w)
     | Some r \<Rightarrow>
        (let (res, c, w1) = reuseTokenSource_Token e (tokenSource_Token e (new r) i) (t r) w
         in (res, i\<lparr>tokenSource := Some (r\<lparr>t := c\<rparr>)\<rparr>, w1)))"

section \<open>The metadata-integrated variant\<close>

record metadataTokenSource =
  md_audience :: string

text \<open>
  What \<open>getTokenSource\<close> returns: the source \<open>cfg.TokenSource(ctx)\<close> of a JWT
  configuration, or the reusing source over the metadata service.
\<close>

datatype oauth2_TokenSource =
    ConfigTokenSource jwt_Config
  | MetadataTokenSource "metadataTokenSource reuseTokenSource"

definition envVar :: string where
  "envVar = ''GOOGLE_APPLICATION_CREDENTIALS''"

definition wellKnownFile :: "env \<Rightarrow> string" where
  "wellKnownFile e =
    (let f = ''application_default_credentials.json''
     in if GOOS e = ''windows'' then filepath_Join e [Getenv e ''APPDATA'', ''gcloud'', f]
        else filepath_Join e [Getenv e ''HOME'', ''.config'', ''gcloud'', f])"

text \<open>
  \<open>xerrors.Errorf\<close> wraps its last argument only when the format ends in
  \<open>": %w"\<close>. The format of \<open>readCredentialsFile\<close> ends in \<open>"%s %w"\<close>, so its error
  wraps nothing: it is a plain error whose text is what \<open>fmt.Sprintf\<close> makes of the
  format, the file name and the cause.
\<close>

definition readCredentialsFile :: "env \<Rightarrow> string \<Rightarrow> err + jwt_Config" where
  "readCredentialsFile e filename =
    (case ReadFile e filename of
       Inl er \<Rightarrow> Inl er
     | Inr data \<Rightarrow>
        (case JWTConfigFromJSON e data [] of
           Inl er \<Rightarrow>
             Inl (Err (''failed to read service account from '' @ filename @ '' '' @
                       fmt_w e er))
         | Inr c \<Rightarrow> Inr c))"

definition newMetadataTokenSource :: "string \<Rightarrow> metadataTokenSource reuseTokenSource" where
  "newMetadataTokenSource aud = \<lparr>t = None, new = \<lparr>md_audience = aud\<rparr>\<rparr>"

definition getTokenSource :: "env \<Rightarrow> string \<Rightarrow> string \<Rightarrow> err + oauth2_TokenSource" where
  "getTokenSource e filename aud =
    (let filename1 = (if filename = '''' then
                        (let f = Getenv e envVar in if f \<noteq> '''' then f else filename)
                      else filename)
     in case (if filename1 = '''' then
                (let f = wellKnownFile e
                 in case Stat e f of
                      StatOK \<Rightarrow> Inr f
                    | StatNotExist _ \<Rightarrow> Inr filename1
                    | StatError er \<Rightarrow> Inl er)
              else Inr filename1) of
          Inl er \<Rightarrow> Inl er
        | Inr filename2 \<Rightarrow>
           (if filename2 \<noteq> '''' then
              (case readCredentialsFile e filename2 of
                 Inl er \<Rightarrow> Inl er
               | Inr cfg \<Rightarrow>
                   Inr (ConfigTokenSource
                          (cfg\<lparr>UseIDToken := True,
                               cfg_PrivateClaims := [(''target_audience'', aud)]\<rparr>)))
            else if OnGCE e then Inr (MetadataTokenSource (newMetadataTokenSource aud))
            else Inl (Err ''unable to determine credentials source'')))"

record md_IAP =
  iap_audience :: string
  iap_tokenSource :: oauth2_TokenSource

definition md_New :: "env \<Rightarrow> string \<Rightarrow> string \<Rightarrow> err + md_IAP" where
  "md_New e aud filename =
    (case getTokenSource e filename aud of
       Inl er \<Rightarrow> Inl er
     | Inr s \<Rightarrow> Inr \<lparr>iap_audience = aud, iap_tokenSource = s\<rparr>)"

definition metadataTokenSource_Token :: "env \<Rightarrow> metadataTokenSource \<Rightarrow> world
    \<Rightarrow> (err + oauth2_Token) \<times> world" where
  "metadataTokenSource_Token e m w =
    (let (r, w1) = Get e (''instance/service-accounts/default/identity?audience='' @
                          md_audience m) w
     in case r of
          Inl er \<Rightarrow> (Inl (Wrap er ''failed to get token from metadata service''), w1)
        | Inr data \<Rightarrow>
           (let (now, w2) = time_Now e w1
            in (Inr \<lparr>AccessToken = data, TokenType = ''Bearer'',
                     Expiry = time_Add now (30 * Minute)\<rparr>, w2)))"

text \<open>\<open>Token\<close> of the reusing source that \<open>newMetadataTokenSource\<close> builds.\<close>

definition md_Token :: "env \<Rightarrow> metadataTokenSource reuseTokenSource \<Rightarrow> world
    \<Rightarrow> (err + oauth2_Token) \<times> metadataTokenSource reuseTokenSource \<times> world" where
  "md_Token e r w =
    (let (res, c, w1) = reuseTokenSource_Token e (metadataTokenSource_Token e (new r)) (t r) w
     in (res, r\<lparr>t := c\<rparr>, w1))"

text \<open>The network exchanges in a history: the POSTs and the metadata requests.\<close>

fun is_exchange :: "event \<Rightarrow> bool" where
  "is_exchange (EvPostForm _ _) = True"
| "is_exchange (EvMetadataGet _) = True"
| "is_exchange _ = False"

definition exchanges :: "world \<Rightarrow> nat" where
  "exchanges w = length (filter is_exchange w)"

section \<open>Shorthand for the statements\<close>

text \<open>
  Shorthand for what \<open>tokenSource.Token\<close> sends at time \<open>iat\<close>: the header and the
  claim set it signs, and the form it posts with the signed assertion \<open>msg\<close>.
\<close>

abbreviation request_header :: jws_Header where
  "request_header \<equiv> \<lparr>Algorithm = ''RS256'', Typ = ''JWT''\<rparr>"

abbreviation request_claims :: "jwt_Config \<Rightarrow> string \<Rightarrow> time \<Rightarrow> jws_ClaimSet" where
  "request_claims j aud iat \<equiv>
     \<lparr>Iss = Email j, Aud = TokenURI, Iat = time_Unix iat, Exp = time_Unix iat + 3600,
      PrivateClaims = [(''target_audience'', aud)]\<rparr>"

abbreviation request_form :: "string \<Rightarrow> url_Values" where
  "request_form msg \<equiv>
     [(''assertion'', [msg]),
      (''grant_type'', [''urn:ietf:params:oauth:grant-type:jwt-bearer''])]"

text \<open>The signing-flow source built from the credentials file \<open>f\<close>.\<close>

abbreviation source_from_file :: "env \<Rightarrow> string \<Rightarrow> string \<Rightarrow> err + oauth2_TokenSource" where
  "source_from_file e f aud \<equiv>
     (case readCredentialsFile e f of
        Inl er \<Rightarrow> Inl er
      | Inr cfg \<Rightarrow>
          Inr (ConfigTokenSource
                 (cfg\<lparr>UseIDToken := True, cfg_PrivateClaims := [(''target_audience'', aud)]\<rparr>)))"

text \<open>
  An error response in the sense of the spec (4.3, 7): the endpoint was reached and
  answered with a status outside 200..299.
\<close>

definition error_response :: "http_Response \<Rightarrow> bool" where
  "error_response resp = (StatusCode resp < 200 \<or> 299 < StatusCode resp)"

section \<open>Test doubles\<close>

text \<open>
  The mock endpoint of the package's test (\<open>testPortFormer\<close> in iap_test.go) answers
  every POST with status 200 and a body that carries an identity token only; the assertions
  it makes on the request are no part of its answer. \<open>test_env\<close> is an environment
  to run the definitions in: a fixed clock, a signer and parsers that know a handful of
  inputs, no credentials in the environment, a metadata service that answers.
\<close>

definition test_body :: string where
  "test_body = ''{\"id_token\":\"hello-world\"}''"

definition testPortFormer :: PostFormer where
  "testPortFormer = (\<lambda>n url values. Inr \<lparr>StatusCode = 200, Body = Inr test_body\<rparr>)"

definition test_env :: env where
  "test_env = \<lparr>
     clock = (\<lambda>n. 1566900000000000000),
     jws_Encode = (\<lambda>h c k. Inr ''header.claims.signature''),
     json_Unmarshal = (\<lambda>b.
        if b = test_body
        then Inr \<lparr>json_TokenType = '''', json_IDToken = ''hello-world'', json_ExpiresIn = 0\<rparr>
        else Inl (Err ''invalid character'')),
     pem_Decode = (\<lambda>s. if s = ''pem-pkcs1'' then Some ''der-pkcs1''
                        else if s = ''pem-pkcs8'' then Some ''der-pkcs8''
                        else if s = ''pem-ec'' then Some ''der-ec'' else None),
     ParsePKCS8PrivateKey = (\<lambda>b. if b = ''der-pkcs8'' then Inr (RSAKey (RSAPrivateKey b))
                        else if b = ''der-ec'' then Inr (OtherKey ''ecdsa'')
                        else Inl (Err ''x509: failed to parse private key'')),
     ParsePKCS1PrivateKey = (\<lambda>b. if b = ''der-pkcs1'' then Inr (RSAPrivateKey b)
                        else Inl (Err ''x509: failed to parse private key'')),
     JWTConfigFromJSON = (\<lambda>data scopes.
        if data = ''service-account'' then
          Inr \<lparr>Email = ''hello-world@example.com'', PrivateKey = ''pem-pkcs1'',
               Scopes = scopes, UseIDToken = False, cfg_PrivateClaims = []\<rparr>
        else Inl (Err ''unexpected end of JSON input'')),
     ReadFile = (\<lambda>f. if f = ''/key.json'' then Inr ''service-account''
                      else Inl (Err ''no such file or directory'')),
     Getenv = (\<lambda>v. if v = ''HOME'' then ''/root'' else ''''),
     Stat = (\<lambda>f. StatNotExist (Err ''no such file or directory'')),
     GOOS = ''linux'',
     filepath_Join = (\<lambda>xs. case xs of [] \<Rightarrow> [] | x # ys \<Rightarrow> foldl (\<lambda>a b. a @ ''/'' @ b) x ys),
     OnGCE = True,
     metadata_Get = (\<lambda>n s. Inr ''metadata-token''),
     httpClient = (\<lambda>n u v. Inl (Err ''connection refused'')),
     expiryDelta = 10000000000,
     fmt_w = (\<lambda>er. ''%!w(error)'')\<rparr>"

definition test_config :: jwt_Config where
  "test_config = \<lparr>Email = ''hello-world@example.com'', PrivateKey = ''pem-pkcs1'',
                   Scopes = [''test@example.com''], UseIDToken = False,
                   cfg_PrivateClaims = []\<rparr>"

definition test_key :: rsa_PrivateKey where
  "test_key = RSAPrivateKey ''der-pkcs1''"

definition test_iap :: IAP where
  "test_iap = \<lparr>audience = ''test@example.com'', jwt = Some test_config,
                postFormer = testPortFormer, tokenSource = None\<rparr>"

text \<open>The endpoint reports a lifetime of 120 seconds, and one of ten thousand million.\<close>

definition short_env :: env where
  "short_env = test_env\<lparr>json_Unmarshal := (\<lambda>b.
      Inr \<lparr>json_TokenType = '''', json_IDToken = ''hello-world'',
           json_ExpiresIn = 120\<rparr>)\<rparr>"

definition overflow_env :: env where
  "overflow_env = test_env\<lparr>json_Unmarshal := (\<lambda>b.
      Inr \<lparr>json_TokenType = '''', json_IDToken = ''hello-world'',
           json_ExpiresIn = 10000000000\<rparr>)\<rparr>"

text \<open>
  An endpoint that refuses the assertion: status 400 and an error document, which parses
  (unknown fields are skipped) into a response with every field zero.
\<close>

definition error_body :: string where
  "error_body = ''{\"error\":\"invalid_grant\"}''"

definition errorPostFormer :: PostFormer where
  "errorPostFormer = (\<lambda>n url values. Inr \<lparr>StatusCode = 400, Body = Inr error_body\<rparr>)"

definition error_env :: env where
  "error_env = test_env\<lparr>json_Unmarshal := (\<lambda>b.
      if b = error_body
      then Inr \<lparr>json_TokenType = '''', json_IDToken = '''', json_ExpiresIn = 0\<rparr>
      else Inl (Err ''invalid character''))\<rparr>"

text \<open>The metadata service does not answer.\<close>

definition down_env :: env where
  "down_env = test_env\<lparr>metadata_Get := (\<lambda>n s. Inl (Err ''metadata: not defined''))\<rparr>"

text \<open>A service account whose key is an elliptic-curve key in PKCS#8.\<close>

definition ec_env :: env where
  "ec_env = test_env\<lparr>JWTConfigFromJSON := (\<lambda>data scopes.
      Inr \<lparr>Email = ''hello-world@example.com'', PrivateKey = ''pem-ec'',
           Scopes = scopes, UseIDToken = False, cfg_PrivateClaims = []\<rparr>)\<rparr>"

text \<open>
  Environments for the search for credentials: the variable names a key file; the default
  credentials file of gcloud exists; its directory cannot be read; no metadata service.
\<close>

definition envvar_env :: env where
  "envvar_env = test_env\<lparr>Getenv :=
      (\<lambda>v. if v = ''GOOGLE_APPLICATION_CREDENTIALS'' then ''/key.json'' else '''')\<rparr>"

definition wellknown_env :: env where
  "wellknown_env = test_env\<lparr>Stat := (\<lambda>f. StatOK), ReadFile := (\<lambda>f.
      if f = ''/root/.config/gcloud/application_default_credentials.json''
      then Inr ''service-account'' else Inl (Err ''no such file or directory''))\<rparr>"

definition denied_env :: env where
  "denied_env = test_env\<lparr>Stat := (\<lambda>f. StatError (Err ''permission denied''))\<rparr>"

definition laptop_env :: env where
  "laptop_env = test_env\<lparr>OnGCE := False\<rparr>"

text \<open>What the first fetch from the mock endpoint returns, and the calls it makes.\<close>

definition test_token :: oauth2_Token where
  "test_token = \<lparr>AccessToken = ''hello-world'', TokenType = ''Bearer'',
                  Expiry = 1566903600000000000\<rparr>"

definition test_history :: world where
  "test_history =
     [EvNow,
      EvEncode request_header
        (request_claims test_config ''test@example.com'' 1566900000000000000) test_key,
      EvPostForm TokenURI (request_form ''header.claims.signature'')]"

text \<open>Two hours pass between the first fetch and the next call.\<close>

definition later_env :: env where
  "later_env = test_env\<lparr>clock :=
      (\<lambda>n. if n < 2 then 1566900000000000000 else 1566907200000000000)\<rparr>"

text \<open>What the first fetch from the metadata service returns, and the calls it makes.\<close>

definition metadata_token :: oauth2_Token where
  "metadata_token = \<lparr>AccessToken = ''metadata-token'', TokenType = ''Bearer'',
                      Expiry = 1566901800000000000\<rparr>"

definition metadata_source :: "metadataTokenSource reuseTokenSource" where
  "metadata_source = \<lparr>t = Some metadata_token, new = \<lparr>md_audience = ''test@example.com''\<rparr>\<rparr>"

definition metadata_history :: world where
  "metadata_history =
     [EvMetadataGet ''instance/service-accounts/default/identity?audience=test@example.com'',
      EvNow]"

text \<open>An endpoint whose answer is no JSON, and one whose answer breaks off while read.\<close>

definition garbagePostFormer :: PostFormer where
  "garbagePostFormer = (\<lambda>n url values. Inr \<lparr>StatusCode = 200, Body = Inr ''<html>''\<rparr>)"

definition brokenPostFormer :: PostFormer where
  "brokenPostFormer =
     (\<lambda>n url values. Inr \<lparr>StatusCode = 200, Body = Inl (Err ''unexpected EOF'')\<rparr>)"

text \<open>What construction returns when the endpoint refuses the assertion.\<close>

definition refused_token :: oauth2_Token where
  "refused_token = \<lparr>AccessToken = '''', TokenType = ''Bearer'',
                     Expiry = 1566903600000000000\<rparr>"

definition refused_iap :: IAP where
  "refused_iap = \<lparr>audience = ''test@example.com'', jwt = Some test_config,
                   postFormer = errorPostFormer,
                   tokenSource = Some \<lparr>t = Some refused_token, new = test_key\<rparr>\<rparr>"

section \<open>Durations and the test double\<close>

lemma sint_Hour: "sint Hour = 3600000000000"
  by (simp add: Hour_def Minute_def Second_def)

lemma Unix_plus_hour: "time_Unix (x + 3600000000000) = time_Unix x + 3600"
  by (simp add: time_Unix_def)

lemma sint_seconds:
  assumes "0 <s n" and "n \<le>s 9223372036"
  shows "sint (n * Second) = sint n * 1000000000"
proof -
  have pos: "0 < sint n"
    using assms(1) by (simp add: word_sless_alt)
  have le: "sint n \<le> 9223372036"
    using assms(2) by (simp add: word_sle_eq)
  have "sint (n * Second) = signed_take_bit 63 (sint n * 1000000000)"
    by (simp add: Second_def sint_word_ariths)
  also have "\<dots> = sint n * 1000000000"
    using pos le by (intro signed_take_bit_int_eq_self) auto
  finally show ?thesis .
qed

lemma test_iap_jwt: "jwt test_iap = Some test_config"
  by (simp add: test_iap_def)

section \<open>A fetch of the signing flow, step by step\<close>

lemma tokenSource_Token_parsed:
  assumes "jwt i = Some j"
    and "jws_Encode e request_header (request_claims j (audience i) (clock e (length w))) key
           = Inr msg"
    and "postFormer i (length w + 2) TokenURI (request_form msg) = Inr resp"
    and "Body resp = Inr body"
    and "json_Unmarshal e body = Inr tj"
  shows "tokenSource_Token e key i w =
    (Inr \<lparr>AccessToken = json_IDToken tj,
          TokenType = (if json_TokenType tj = '''' then ''Bearer'' else json_TokenType tj),
          Expiry = (if json_ExpiresIn tj \<noteq> 0
                    then clock e (length w) + sint (json_ExpiresIn tj * Second)
                    else clock e (length w) + 3600000000000)\<rparr>,
     w @ [EvNow, EvEncode request_header (request_claims j (audience i) (clock e (length w))) key,
          EvPostForm TokenURI (request_form msg)])"
  using assms
  by (simp add: tokenSource_Token_def time_Now_def Encode_def PostForm_def Unix_plus_hour
      values_Set_def time_Add_def sint_Hour Let_def)

section \<open>The signed assertion\<close>

text \<open>
  C1. Every token fetch of the signing flow signs one claim set: issuer the service-account
  email, audience the token endpoint \<open>TokenURI\<close> (not the target audience), issued-at
  the time of the fetch in Unix seconds, expiry one hour (3600 seconds) later, and the
  private claim \<open>target_audience\<close> the configured audience; the header says RS256 and
  JWT. The call to the signer is the second call of the fetch, after reading the clock.
\<close>

theorem assertion_claims:
  assumes "jwt i = Some j"
  shows "\<exists>rest. snd (tokenSource_Token e key i w) =
     w @ EvNow # EvEncode \<lparr>Algorithm = ''RS256'', Typ = ''JWT''\<rparr>
        \<lparr>Iss = Email j, Aud = TokenURI, Iat = time_Unix (clock e (length w)),
         Exp = time_Unix (clock e (length w)) + 3600,
         PrivateClaims = [(''target_audience'', audience i)]\<rparr> key # rest"
  using assms
  by (simp add: tokenSource_Token_def time_Now_def Encode_def PostForm_def Unix_plus_hour
      time_Add_def sint_Hour Let_def split: sum.splits prod.splits)

theorem assertion_claims_witness:
  "jwt test_iap = Some test_config
   \<and> (\<exists>rest. snd (tokenSource_Token test_env test_key test_iap []) =
     EvNow # EvEncode \<lparr>Algorithm = ''RS256'', Typ = ''JWT''\<rparr>
        \<lparr>Iss = ''hello-world@example.com'',
         Aud = ''https://www.googleapis.com/oauth2/v4/token'',
         Iat = 1566900000, Exp = 1566903600,
         PrivateClaims = [(''target_audience'', ''test@example.com'')]\<rparr> test_key # rest)"
  using test_iap_jwt assertion_claims [OF test_iap_jwt, of test_env test_key "[]"]
  by (simp add: test_iap_def test_config_def test_env_def time_Unix_def TokenURI_def)

section \<open>The lifetime of a fetched token\<close>

text \<open>
  The claim C2 as written fails where the lifetime overflows a duration: ten thousand
  million seconds are a positive \<open>expires_in\<close>, and the expiry lies before the issuance time.
\<close>

theorem expires_in_overflow:
  "json_Unmarshal overflow_env test_body =
     Inr \<lparr>json_TokenType = '''', json_IDToken = ''hello-world'', json_ExpiresIn = 10000000000\<rparr>
   \<and> 0 <s (10000000000 :: 64 word)
   \<and> fst (tokenSource_Token overflow_env test_key test_iap []) =
       Inr \<lparr>AccessToken = ''hello-world'', TokenType = ''Bearer'',
            Expiry = clock overflow_env 0 - 8446744073709551616\<rparr>
   \<and> clock overflow_env 0 - 8446744073709551616
       \<noteq> clock overflow_env 0 + 10000000000 * 1000000000"
  by (simp add: overflow_env_def test_env_def test_iap_def test_config_def test_key_def
      testPortFormer_def tokenSource_Token_def time_Now_def Encode_def PostForm_def
      values_Set_def time_Add_def sint_Hour Second_def TokenURI_def word_sless_alt)

text \<open>
  C2, amended. For every response the fetch parses: when \<open>expires_in\<close> is absent or 0
  (the field is 0 either way) the token expires one hour after the issuance time; when it is
  a positive number of seconds \<open>n\<close>, at most 9223372036 (the largest whose nanoseconds fit
  a duration), the token expires \<open>n\<close> seconds after the issuance time.
\<close>

theorem token_expiry:
  assumes "jwt i = Some j"
    and "jws_Encode e request_header (request_claims j (audience i) (clock e (length w))) key
           = Inr msg"
    and "postFormer i (length w + 2) TokenURI (request_form msg) = Inr resp"
    and "Body resp = Inr body"
    and "json_Unmarshal e body = Inr tj"
  shows "\<exists>tok w'. tokenSource_Token e key i w = (Inr tok, w') \<and>
      (json_ExpiresIn tj = 0 \<longrightarrow> Expiry tok = clock e (length w) + 3600000000000) \<and>
      (0 <s json_ExpiresIn tj \<and> json_ExpiresIn tj \<le>s 9223372036 \<longrightarrow>
         Expiry tok = clock e (length w) + sint (json_ExpiresIn tj) * 1000000000)"
proof -
  have nz: "json_ExpiresIn tj \<noteq> 0" if "0 <s json_ExpiresIn tj"
    using that by auto
  show ?thesis
    unfolding tokenSource_Token_parsed [OF assms]
    by (auto simp: sint_seconds dest: nz)
qed

theorem token_expiry_witness:
  "jwt test_iap = Some test_config
   \<and> jws_Encode test_env request_header
        (request_claims test_config (audience test_iap) (clock test_env (length ([]::world))))
        test_key = Inr ''header.claims.signature''
   \<and> postFormer test_iap (length ([]::world) + 2) TokenURI
        (request_form ''header.claims.signature'') = Inr \<lparr>StatusCode = 200, Body = Inr test_body\<rparr>
   \<and> json_Unmarshal test_env test_body =
        Inr \<lparr>json_TokenType = '''', json_IDToken = ''hello-world'', json_ExpiresIn = 0\<rparr>
   \<and> (\<exists>tok w'. tokenSource_Token test_env test_key test_iap [] = (Inr tok, w')
         \<and> Expiry tok = 1566903600000000000)
   \<and> jws_Encode short_env request_header
        (request_claims test_config (audience test_iap) (clock short_env (length ([]::world))))
        test_key = Inr ''header.claims.signature''
   \<and> json_Unmarshal short_env test_body =
        Inr \<lparr>json_TokenType = '''', json_IDToken = ''hello-world'', json_ExpiresIn = 120\<rparr>
   \<and> 0 <s (120 :: 64 word) \<and> (120 :: 64 word) \<le>s 9223372036
   \<and> (\<exists>tok w'. tokenSource_Token short_env test_key test_iap [] = (Inr tok, w')
         \<and> Expiry tok = 1566900120000000000)"
proof -
  have enc0: "jws_Encode test_env request_header
        (request_claims test_config (audience test_iap) (clock test_env (length ([]::world))))
        test_key = Inr ''header.claims.signature''"
    by (simp add: test_env_def)
  have enc1: "jws_Encode short_env request_header
        (request_claims test_config (audience test_iap) (clock short_env (length ([]::world))))
        test_key = Inr ''header.claims.signature''"
    by (simp add: short_env_def test_env_def)
  have post: "postFormer test_iap (length ([]::world) + 2) TokenURI
        (request_form ''header.claims.signature'') = Inr \<lparr>StatusCode = 200, Body = Inr test_body\<rparr>"
    by (simp add: test_iap_def testPortFormer_def)
  have body: "Body \<lparr>StatusCode = 200, Body = Inr test_body\<rparr> = Inr test_body"
    by simp
  have un0: "json_Unmarshal test_env test_body =
        Inr \<lparr>json_TokenType = '''', json_IDToken = ''hello-world'', json_ExpiresIn = 0\<rparr>"
    by (simp add: test_env_def)
  have un1: "json_Unmarshal short_env test_body =
        Inr \<lparr>json_TokenType = '''', json_IDToken = ''hello-world'', json_ExpiresIn = 120\<rparr>"
    by (simp add: short_env_def)
  have rng: "0 <s (120 :: 64 word)" "(120 :: 64 word) \<le>s 9223372036"
    by (simp_all add: word_sless_alt word_sle_eq)
  have r0: "\<exists>tok w'. tokenSource_Token test_env test_key test_iap [] = (Inr tok, w')
         \<and> Expiry tok = 1566903600000000000"
    using token_expiry [OF test_iap_jwt enc0 post body un0] by (simp add: test_env_def)
  have r1: "\<exists>tok w'. tokenSource_Token short_env test_key test_iap [] = (Inr tok, w')
         \<and> Expiry tok = 1566900120000000000"
    using token_expiry [OF test_iap_jwt enc1 post body un1] rng
    by (simp add: short_env_def test_env_def)
  show ?thesis
    using test_iap_jwt enc0 enc1 post un0 un1 rng r0 r1 by simp
qed

section \<open>Errors of the exchange\<close>

text \<open>
  The claim C8 as written fails on an error response whose body parses: the fetch
  succeeds with an empty access token.
\<close>

theorem error_response_accepted:
  "errorPostFormer 2 TokenURI (request_form ''header.claims.signature'') =
     Inr \<lparr>StatusCode = 400, Body = Inr error_body\<rparr>
   \<and> error_response \<lparr>StatusCode = 400, Body = Inr error_body\<rparr>
   \<and> fst (tokenSource_Token error_env test_key (test_iap\<lparr>postFormer := errorPostFormer\<rparr>) []) =
       Inr \<lparr>AccessToken = '''', TokenType = ''Bearer'', Expiry = 1566903600000000000\<rparr>"
  by (simp add: error_env_def test_env_def test_iap_def test_config_def test_key_def
      errorPostFormer_def error_response_def error_body_def
      tokenSource_Token_def time_Now_def Encode_def PostForm_def
      values_Set_def time_Add_def sint_Hour TokenURI_def)

lemma tokenSource_Token_posted:
  assumes "jwt i = Some j"
    and "jws_Encode e request_header (request_claims j (audience i) (clock e (length w))) key
           = Inr msg"
  shows "fst (tokenSource_Token e key i w) =
    (case postFormer i (length w + 2) TokenURI (request_form msg) of
       Inl er \<Rightarrow> Inl (Wrap er ''failed to POST token request'')
     | Inr resp \<Rightarrow>
        (case Body resp of
           Inl er \<Rightarrow> Inl (Wrap er ''failed to read response body'')
         | Inr body \<Rightarrow>
            (case json_Unmarshal e body of
               Inl er \<Rightarrow> Inl (Wrap er ''failed to unmarshal request body'')
             | Inr tj \<Rightarrow>
                 Inr \<lparr>AccessToken = json_IDToken tj,
                      TokenType = (if json_TokenType tj = '''' then ''Bearer''
                                   else json_TokenType tj),
                      Expiry = (if json_ExpiresIn tj \<noteq> 0
                                then clock e (length w) + sint (json_ExpiresIn tj * Second)
                                else clock e (length w) + 3600000000000)\<rparr>)))"
  using assms
  by (simp add: tokenSource_Token_def time_Now_def Encode_def PostForm_def Unix_plus_hour
      values_Set_def time_Add_def sint_Hour Let_def split: sum.splits)

text \<open>
  C8, amended. Once the assertion is signed, the exchange returns the error of the POST,
  wrapped as "failed to POST token request", exactly when the transport call fails with
  that error. For every response of the endpoint, whatever its status code: when the body
  cannot be read the exchange returns the error of the read, wrapped as "failed to read
  response body"; when the body cannot be parsed it returns the error of the parser,
  wrapped as "failed to unmarshal request body"; when the body parses it returns the token
  made of the parsed fields. So it returns an error exactly when the body cannot be read or
  cannot be parsed, and a token exactly when the body parses.
\<close>

theorem exchange_errors:
  assumes "jwt i = Some j"
    and "jws_Encode e request_header (request_claims j (audience i) (clock e (length w))) key
           = Inr msg"
  shows "(\<forall>er. (fst (tokenSource_Token e key i w) =
                 Inl (Wrap er ''failed to POST token request''))
              = (postFormer i (length w + 2) TokenURI (request_form msg) = Inl er))
    \<and> (\<forall>resp. postFormer i (length w + 2) TokenURI (request_form msg) = Inr resp \<longrightarrow>
          (\<forall>er. Body resp = Inl er \<longrightarrow>
             fst (tokenSource_Token e key i w) = Inl (Wrap er ''failed to read response body''))
          \<and> (\<forall>body er. Body resp = Inr body \<and> json_Unmarshal e body = Inl er \<longrightarrow>
             fst (tokenSource_Token e key i w) =
               Inl (Wrap er ''failed to unmarshal request body''))
          \<and> (\<forall>body tj. Body resp = Inr body \<and> json_Unmarshal e body = Inr tj \<longrightarrow>
             fst (tokenSource_Token e key i w) =
               Inr \<lparr>AccessToken = json_IDToken tj,
                    TokenType = (if json_TokenType tj = '''' then ''Bearer''
                                 else json_TokenType tj),
                    Expiry = (if json_ExpiresIn tj \<noteq> 0
                              then clock e (length w) + sint (json_ExpiresIn tj * Second)
                              else clock e (length w) + 3600000000000)\<rparr>)
          \<and> ((\<exists>er. fst (tokenSource_Token e key i w) = Inl er)
             = ((\<exists>er. Body resp = Inl er)
                \<or> (\<exists>body er. Body resp = Inr body \<and> json_Unmarshal e body = Inl er)))
          \<and> ((\<exists>tok. fst (tokenSource_Token e key i w) = Inr tok)
             = (\<exists>body tj. Body resp = Inr body \<and> json_Unmarshal e body = Inr tj)))"
proof (intro conjI allI impI)
  fix er
  show "(fst (tokenSource_Token e key i w) = Inl (Wrap er ''failed to POST token request''))
      = (postFormer i (length w + 2) TokenURI (request_form msg) = Inl er)"
    unfolding tokenSource_Token_posted [OF assms]
    by (auto split: sum.splits)
next
  fix resp er
  assume "postFormer i (length w + 2) TokenURI (request_form msg) = Inr resp"
    and "Body resp = Inl er"
  then show "fst (tokenSource_Token e key i w) = Inl (Wrap er ''failed to read response body'')"
    unfolding tokenSource_Token_posted [OF assms] by simp
next
  fix resp body er
  assume "postFormer i (length w + 2) TokenURI (request_form msg) = Inr resp"
    and "Body resp = Inr body \<and> json_Unmarshal e body = Inl er"
  then show "fst (tokenSource_Token e key i w) =
      Inl (Wrap er ''failed to unmarshal request body'')"
    unfolding tokenSource_Token_posted [OF assms] by simp
next
  fix resp body tj
  assume "postFormer i (length w + 2) TokenURI (request_form msg) = Inr resp"
    and "Body resp = Inr body \<and> json_Unmarshal e body = Inr tj"
  then show "fst (tokenSource_Token e key i w) =
      Inr \<lparr>AccessToken = json_IDToken tj,
           TokenType = (if json_TokenType tj = '''' then ''Bearer'' else json_TokenType tj),
           Expiry = (if json_ExpiresIn tj \<noteq> 0
                     then clock e (length w) + sint (json_ExpiresIn tj * Second)
                     else clock e (length w) + 3600000000000)\<rparr>"
    unfolding tokenSource_Token_posted [OF assms] by simp
next
  fix resp
  assume "postFormer i (length w + 2) TokenURI (request_form msg) = Inr resp"
  then show "(\<exists>er. fst (tokenSource_Token e key i w) = Inl er)
      = ((\<exists>er. Body resp = Inl er)
         \<or> (\<exists>body er. Body resp = Inr body \<and> json_Unmarshal e body = Inl er))"
    unfolding tokenSource_Token_posted [OF assms]
    by (auto split: sum.splits)
next
  fix resp
  assume "postFormer i (length w + 2) TokenURI (request_form msg) = Inr resp"
  then show "(\<exists>tok. fst (tokenSource_Token e key i w) = Inr tok)
      = (\<exists>body tj. Body resp = Inr body \<and> json_Unmarshal e body = Inr tj)"
    unfolding tokenSource_Token_posted [OF assms]
    by (auto split: sum.splits)
qed

theorem exchange_errors_witness:
  "jwt test_iap = Some test_config
   \<and> jws_Encode test_env request_header
        (request_claims test_config ''test@example.com'' (clock test_env (length ([]::world))))
        test_key = Inr ''header.claims.signature''
   \<and> postFormer test_iap (length ([]::world) + 2) TokenURI
        (request_form ''header.claims.signature'') = Inr \<lparr>StatusCode = 200, Body = Inr test_body\<rparr>
   \<and> json_Unmarshal test_env test_body =
        Inr \<lparr>json_TokenType = '''', json_IDToken = ''hello-world'', json_ExpiresIn = 0\<rparr>
   \<and> fst (tokenSource_Token test_env test_key test_iap []) =
        Inr \<lparr>AccessToken = ''hello-world'', TokenType = ''Bearer'',
             Expiry = 1566903600000000000\<rparr>
   \<and> postFormer (test_iap\<lparr>postFormer := httpClient test_env\<rparr>) (length ([]::world) + 2) TokenURI
        (request_form ''header.claims.signature'') = Inl (Err ''connection refused'')
   \<and> fst (tokenSource_Token test_env test_key
             (test_iap\<lparr>postFormer := httpClient test_env\<rparr>) []) =
        Inl (Wrap (Err ''connection refused'') ''failed to POST token request'')
   \<and> postFormer (test_iap\<lparr>postFormer := brokenPostFormer\<rparr>) (length ([]::world) + 2) TokenURI
        (request_form ''header.claims.signature'') =
        Inr \<lparr>StatusCode = 200, Body = Inl (Err ''unexpected EOF'')\<rparr>
   \<and> fst (tokenSource_Token test_env test_key
             (test_iap\<lparr>postFormer := brokenPostFormer\<rparr>) []) =
        Inl (Wrap (Err ''unexpected EOF'') ''failed to read response body'')
   \<and> postFormer (test_iap\<lparr>postFormer := garbagePostFormer\<rparr>) (length ([]::world) + 2) TokenURI
        (request_form ''header.claims.signature'') =
        Inr \<lparr>StatusCode = 200, Body = Inr ''<html>''\<rparr>
   \<and> json_Unmarshal test_env ''<html>'' = Inl (Err ''invalid character'')
   \<and> fst (tokenSource_Token test_env test_key
             (test_iap\<lparr>postFormer := garbagePostFormer\<rparr>) []) =
        Inl (Wrap (Err ''invalid character'') ''failed to unmarshal request body'')"
proof -
  let ?down = "test_iap\<lparr>postFormer := httpClient test_env\<rparr>"
  let ?broken = "test_iap\<lparr>postFormer := brokenPostFormer\<rparr>"
  let ?garbage = "test_iap\<lparr>postFormer := garbagePostFormer\<rparr>"
  have enc: "jws_Encode test_env request_header
        (request_claims test_config (audience i) (clock test_env (length ([]::world))))
        test_key = Inr ''header.claims.signature''" for i
    by (simp add: test_env_def)
  have aud: "audience test_iap = ''test@example.com''"
    by (simp add: test_iap_def)
  have j: "jwt ?down = Some test_config" "jwt ?broken = Some test_config"
    "jwt ?garbage = Some test_config"
    by (simp_all add: test_iap_def)
  have post: "postFormer test_iap (length ([]::world) + 2) TokenURI
        (request_form ''header.claims.signature'') = Inr \<lparr>StatusCode = 200, Body = Inr test_body\<rparr>"
    by (simp add: test_iap_def testPortFormer_def)
  have parse: "json_Unmarshal test_env test_body =
        Inr \<lparr>json_TokenType = '''', json_IDToken = ''hello-world'', json_ExpiresIn = 0\<rparr>"
    by (simp add: test_env_def)
  have post_down: "postFormer ?down (length ([]::world) + 2) TokenURI
        (request_form ''header.claims.signature'') = Inl (Err ''connection refused'')"
    by (simp add: test_env_def)
  have post_broken: "postFormer ?broken (length ([]::world) + 2) TokenURI
        (request_form ''header.claims.signature'') =
        Inr \<lparr>StatusCode = 200, Body = Inl (Err ''unexpected EOF'')\<rparr>"
    by (simp add: brokenPostFormer_def)
  have post_garbage: "postFormer ?garbage (length ([]::world) + 2) TokenURI
        (request_form ''header.claims.signature'') =
        Inr \<lparr>StatusCode = 200, Body = Inr ''<html>''\<rparr>"
    by (simp add: garbagePostFormer_def)
  have noparse: "json_Unmarshal test_env ''<html>'' = Inl (Err ''invalid character'')"
    by (simp add: test_env_def test_body_def)
  have ok: "fst (tokenSource_Token test_env test_key test_iap []) =
        Inr \<lparr>AccessToken = ''hello-world'', TokenType = ''Bearer'',
             Expiry = 1566903600000000000\<rparr>"
    using exchange_errors [OF test_iap_jwt enc] post parse by (simp add: test_env_def)
  have down: "fst (tokenSource_Token test_env test_key ?down []) =
        Inl (Wrap (Err ''connection refused'') ''failed to POST token request'')"
    using exchange_errors [OF j(1) enc] post_down by blast
  have broken: "fst (tokenSource_Token test_env test_key ?broken []) =
        Inl (Wrap (Err ''unexpected EOF'') ''failed to read response body'')"
    using exchange_errors [OF j(2) enc] post_broken by simp
  have garbage: "fst (tokenSource_Token test_env test_key ?garbage []) =
        Inl (Wrap (Err ''invalid character'') ''failed to unmarshal request body'')"
    using exchange_errors [OF j(3) enc] post_garbage noparse by simp
  show ?thesis
    using test_iap_jwt enc [of test_iap] aud post parse ok post_down down post_broken broken
      post_garbage noparse garbage
    by simp
qed

section \<open>The metadata flow\<close>

text \<open>
  C9. A fetch of the metadata flow that gets an answer returns the raw body as access
  token, with token type Bearer and expiry 30 minutes after the clock reading taken when
  the answer has arrived; a fetch whose metadata request fails returns an error and no
  token.
\<close>

theorem metadata_fetch:
  "(\<forall>data. metadata_Get e (length w)
             (''instance/service-accounts/default/identity?audience='' @ md_audience m)
           = Inr data \<longrightarrow>
       metadataTokenSource_Token e m w =
         (Inr \<lparr>AccessToken = data, TokenType = ''Bearer'',
               Expiry = clock e (length w + 1) + 1800000000000\<rparr>,
          w @ [EvMetadataGet (''instance/service-accounts/default/identity?audience='' @
                              md_audience m), EvNow]))
   \<and> (\<forall>er. metadata_Get e (length w)
             (''instance/service-accounts/default/identity?audience='' @ md_audience m)
           = Inl er \<longrightarrow>
       metadataTokenSource_Token e m w =
         (Inl (Wrap er ''failed to get token from metadata service''),
          w @ [EvMetadataGet (''instance/service-accounts/default/identity?audience='' @
                              md_audience m)]))"
  by (simp add: metadataTokenSource_Token_def Get_def time_Now_def time_Add_def
      Minute_def Second_def)

theorem metadata_fetch_witness:
  "metadata_Get test_env (length ([]::world))
      (''instance/service-accounts/default/identity?audience='' @
       md_audience \<lparr>md_audience = ''test@example.com''\<rparr>) = Inr ''metadata-token''
   \<and> metadataTokenSource_Token test_env \<lparr>md_audience = ''test@example.com''\<rparr> [] =
         (Inr \<lparr>AccessToken = ''metadata-token'', TokenType = ''Bearer'',
               Expiry = 1566901800000000000\<rparr>,
          [EvMetadataGet ''instance/service-accounts/default/identity?audience=test@example.com'',
           EvNow])
   \<and> metadata_Get down_env (length ([]::world))
      (''instance/service-accounts/default/identity?audience='' @
       md_audience \<lparr>md_audience = ''test@example.com''\<rparr>) = Inl (Err ''metadata: not defined'')
   \<and> metadataTokenSource_Token down_env \<lparr>md_audience = ''test@example.com''\<rparr> [] =
         (Inl (Wrap (Err ''metadata: not defined'') ''failed to get token from metadata service''),
          [EvMetadataGet
             ''instance/service-accounts/default/identity?audience=test@example.com''])"
proof -
  let ?m = "\<lparr>md_audience = ''test@example.com''\<rparr>"
  have up: "metadata_Get test_env (length ([]::world))
      (''instance/service-accounts/default/identity?audience='' @ md_audience ?m)
      = Inr ''metadata-token''"
    by (simp add: test_env_def)
  have dn: "metadata_Get down_env (length ([]::world))
      (''instance/service-accounts/default/identity?audience='' @ md_audience ?m)
      = Inl (Err ''metadata: not defined'')"
    by (simp add: down_env_def)
  show ?thesis
    using up dn metadata_fetch [of test_env "[]" ?m] metadata_fetch [of down_env "[]" ?m]
    by (simp add: test_env_def)
qed

section \<open>Parsing the private key\<close>

lemma parseKey_cases:
  "parseKey e k =
    (case pem_Decode e k of
       None \<Rightarrow> Inl (Err ''invalid private key data'')
     | Some block \<Rightarrow>
        (case ParsePKCS8PrivateKey e block of
           Inr (RSAKey key8) \<Rightarrow> Inr key8
         | Inr (OtherKey n) \<Rightarrow> Inl (Err ''private key is invalid'')
         | Inl e8 \<Rightarrow>
            (case ParsePKCS1PrivateKey e block of
               Inr key1 \<Rightarrow> Inr key1
             | Inl e1 \<Rightarrow>
                 Inl (Wrap e1 ''private key should be a PEM or plain PKCS1 or PKCS8''))))"
  by (simp add: parseKey_def split: option.splits sum.splits parsed_key.splits)

text \<open>
  C7. Parsing the private key takes a PKCS#8 key first and a PKCS#1 key when PKCS#8 fails.
  It fails exactly when the input has no PEM block, when neither parser accepts the block, or
  when the PKCS#8 key is not an RSA key. When the key of the loaded configuration does not
  parse, \<open>New\<close> returns that error wrapped as "failed to parse private key": no panic, no
  \<open>IAP\<close>, and no call made (the history is unchanged), so no token.
\<close>

theorem parseKey_errors:
  "((\<exists>er. parseKey e k = Inl er) =
      (pem_Decode e k = None
       \<or> (\<exists>block. pem_Decode e k = Some block
             \<and> ((\<exists>e8 e1. ParsePKCS8PrivateKey e block = Inl e8
                          \<and> ParsePKCS1PrivateKey e block = Inl e1)
                \<or> (\<exists>n. ParsePKCS8PrivateKey e block = Inr (OtherKey n))))))
   \<and> (\<forall>block key8. pem_Decode e k = Some block
          \<and> ParsePKCS8PrivateKey e block = Inr (RSAKey key8) \<longrightarrow> parseKey e k = Inr key8)
   \<and> (\<forall>block e8 key1. pem_Decode e k = Some block
          \<and> ParsePKCS8PrivateKey e block = Inl e8
          \<and> ParsePKCS1PrivateKey e block = Inr key1 \<longrightarrow> parseKey e k = Inr key1)
   \<and> (\<forall>i j er. New_config e aud opts = Inr i \<and> jwt i = Some j
          \<and> parseKey e (PrivateKey j) = Inl er \<longrightarrow>
        New e aud opts w = (Inl (Wrap er ''failed to parse private key''), w))"
proof (intro conjI allI impI)
  show "(\<exists>er. parseKey e k = Inl er) =
      (pem_Decode e k = None
       \<or> (\<exists>block. pem_Decode e k = Some block
             \<and> ((\<exists>e8 e1. ParsePKCS8PrivateKey e block = Inl e8
                          \<and> ParsePKCS1PrivateKey e block = Inl e1)
                \<or> (\<exists>n. ParsePKCS8PrivateKey e block = Inr (OtherKey n)))))"
    unfolding parseKey_cases
    by (auto split: option.splits sum.splits parsed_key.splits)
next
  fix block key8
  assume "pem_Decode e k = Some block \<and> ParsePKCS8PrivateKey e block = Inr (RSAKey key8)"
  then show "parseKey e k = Inr key8"
    by (simp add: parseKey_cases)
next
  fix block e8 key1
  assume "pem_Decode e k = Some block \<and> ParsePKCS8PrivateKey e block = Inl e8
          \<and> ParsePKCS1PrivateKey e block = Inr key1"
  then show "parseKey e k = Inr key1"
    by (simp add: parseKey_cases)
next
  fix i j er
  assume "New_config e aud opts = Inr i \<and> jwt i = Some j \<and> parseKey e (PrivateKey j) = Inl er"
  then show "New e aud opts w = (Inl (Wrap er ''failed to parse private key''), w)"
    by (simp add: New_def)
qed

theorem parseKey_errors_witness:
  "pem_Decode test_env ''garbage'' = None
   \<and> parseKey test_env ''garbage'' = Inl (Err ''invalid private key data'')
   \<and> pem_Decode test_env ''pem-pkcs8'' = Some ''der-pkcs8''
   \<and> ParsePKCS8PrivateKey test_env ''der-pkcs8'' = Inr (RSAKey (RSAPrivateKey ''der-pkcs8''))
   \<and> parseKey test_env ''pem-pkcs8'' = Inr (RSAPrivateKey ''der-pkcs8'')
   \<and> pem_Decode test_env ''pem-pkcs1'' = Some ''der-pkcs1''
   \<and> ParsePKCS8PrivateKey test_env ''der-pkcs1'' = Inl (Err ''x509: failed to parse private key'')
   \<and> ParsePKCS1PrivateKey test_env ''der-pkcs1'' = Inr (RSAPrivateKey ''der-pkcs1'')
   \<and> parseKey test_env ''pem-pkcs1'' = Inr (RSAPrivateKey ''der-pkcs1'')
   \<and> New_config ec_env ''test@example.com''
        [WithServiceAccount ec_env ''service-account'', WithPostFormer testPortFormer] =
      Inr (test_iap\<lparr>jwt := Some (test_config\<lparr>PrivateKey := ''pem-ec''\<rparr>)\<rparr>)
   \<and> parseKey ec_env ''pem-ec'' = Inl (Err ''private key is invalid'')
   \<and> New ec_env ''test@example.com''
        [WithServiceAccount ec_env ''service-account'', WithPostFormer testPortFormer] [] =
      (Inl (Wrap (Err ''private key is invalid'') ''failed to parse private key''), [])"
proof -
  let ?opts = "[WithServiceAccount ec_env ''service-account'', WithPostFormer testPortFormer]"
  let ?i = "test_iap\<lparr>jwt := Some (test_config\<lparr>PrivateKey := ''pem-ec''\<rparr>)\<rparr>"
  have none: "pem_Decode test_env ''garbage'' = None"
    by (simp add: test_env_def)
  have p8: "pem_Decode test_env ''pem-pkcs8'' = Some ''der-pkcs8''
      \<and> ParsePKCS8PrivateKey test_env ''der-pkcs8'' = Inr (RSAKey (RSAPrivateKey ''der-pkcs8''))"
    by (simp add: test_env_def)
  have p1: "pem_Decode test_env ''pem-pkcs1'' = Some ''der-pkcs1''
      \<and> ParsePKCS8PrivateKey test_env ''der-pkcs1'' = Inl (Err ''x509: failed to parse private key'')
      \<and> ParsePKCS1PrivateKey test_env ''der-pkcs1'' = Inr (RSAPrivateKey ''der-pkcs1'')"
    by (simp add: test_env_def)
  have cfg: "New_config ec_env ''test@example.com'' ?opts = Inr ?i"
    by (simp add: New_config_def WithServiceAccount_def WithPostFormer_def ec_env_def
        test_iap_def test_config_def)
  have j: "jwt ?i = Some (test_config\<lparr>PrivateKey := ''pem-ec''\<rparr>)"
    by simp
  have ec: "parseKey ec_env (PrivateKey (test_config\<lparr>PrivateKey := ''pem-ec''\<rparr>))
      = Inl (Err ''private key is invalid'')"
    by (simp add: parseKey_def ec_env_def test_env_def)
  have "\<exists>er. parseKey test_env ''garbage'' = Inl er"
    using parseKey_errors [of test_env "''garbage''" "''test@example.com''" ?opts "[]"] none
    by simp
  then have r0: "parseKey test_env ''garbage'' = Inl (Err ''invalid private key data'')"
    by (simp add: parseKey_def none)
  have r8: "parseKey test_env ''pem-pkcs8'' = Inr (RSAPrivateKey ''der-pkcs8'')"
    using parseKey_errors [of test_env "''pem-pkcs8''" "''test@example.com''" ?opts "[]"] p8
    by blast
  have r1: "parseKey test_env ''pem-pkcs1'' = Inr (RSAPrivateKey ''der-pkcs1'')"
    using parseKey_errors [of test_env "''pem-pkcs1''" "''test@example.com''" ?opts "[]"] p1
    by blast
  have rn: "New ec_env ''test@example.com'' ?opts [] =
      (Inl (Wrap (Err ''private key is invalid'') ''failed to parse private key''), [])"
    using parseKey_errors [of ec_env "''pem-ec''" "''test@example.com''" ?opts "[]"] cfg j ec
    by blast
  show ?thesis
    using none r0 p8 r8 p1 r1 cfg ec rn by simp
qed

section \<open>The search for credentials\<close>

text \<open>
  The claim C5 as written fails when the default credentials path cannot be examined: no
  file name given, the variable unset, the file not found to exist, the process on the
  metadata platform, and the result is the error of \<open>os.Stat\<close>, not the metadata strategy.
\<close>

theorem stat_error_no_fallback:
  "Getenv denied_env envVar = ''''
   \<and> Stat denied_env (wellKnownFile denied_env) \<noteq> StatOK
   \<and> OnGCE denied_env
   \<and> getTokenSource denied_env '''' ''test@example.com'' = Inl (Err ''permission denied'')
   \<and> getTokenSource denied_env '''' ''test@example.com''
       \<noteq> Inr (MetadataTokenSource (newMetadataTokenSource ''test@example.com''))"
  by (simp add: getTokenSource_def denied_env_def test_env_def envVar_def)

text \<open>
  C5, amended. In the metadata-integrated variant the credentials are resolved in this order:
  an explicit file name; else the path in GOOGLE_APPLICATION_CREDENTIALS if set; else the
  well-known per-OS default path if \<open>os.Stat\<close> finds the file, and if \<open>os.Stat\<close> fails
  for another reason than the file not existing, resolution fails with that error. With a
  file name resolved the signing-flow source is built from that file; with none, the
  metadata-backed strategy is used on the metadata platform, and elsewhere resolution fails
  with an error.
\<close>

theorem credential_resolution:
  "(filename \<noteq> '''' \<longrightarrow>
      getTokenSource e filename aud = source_from_file e filename aud)
   \<and> (filename = '''' \<and> Getenv e envVar \<noteq> '''' \<longrightarrow>
      getTokenSource e filename aud = source_from_file e (Getenv e envVar) aud)
   \<and> (filename = '''' \<and> Getenv e envVar = '''' \<and> Stat e (wellKnownFile e) = StatOK
        \<and> wellKnownFile e \<noteq> '''' \<longrightarrow>
      getTokenSource e filename aud = source_from_file e (wellKnownFile e) aud)
   \<and> (\<forall>er. filename = '''' \<and> Getenv e envVar = ''''
        \<and> Stat e (wellKnownFile e) = StatError er \<longrightarrow>
      getTokenSource e filename aud = Inl er)
   \<and> (\<forall>er. filename = '''' \<and> Getenv e envVar = ''''
        \<and> Stat e (wellKnownFile e) = StatNotExist er \<and> OnGCE e \<longrightarrow>
      getTokenSource e filename aud = Inr (MetadataTokenSource (newMetadataTokenSource aud)))
   \<and> (\<forall>er. filename = '''' \<and> Getenv e envVar = ''''
        \<and> Stat e (wellKnownFile e) = StatNotExist er \<and> \<not> OnGCE e \<longrightarrow>
      getTokenSource e filename aud = Inl (Err ''unable to determine credentials source''))"
proof (intro conjI allI impI)
  assume "filename \<noteq> ''''"
  then show "getTokenSource e filename aud = source_from_file e filename aud"
    by (simp add: getTokenSource_def)
next
  assume "filename = '''' \<and> Getenv e envVar \<noteq> ''''"
  then show "getTokenSource e filename aud = source_from_file e (Getenv e envVar) aud"
    by (simp add: getTokenSource_def Let_def)
next
  assume "filename = '''' \<and> Getenv e envVar = '''' \<and> Stat e (wellKnownFile e) = StatOK
      \<and> wellKnownFile e \<noteq> ''''"
  then show "getTokenSource e filename aud = source_from_file e (wellKnownFile e) aud"
    by (simp add: getTokenSource_def Let_def)
next
  fix er
  assume "filename = '''' \<and> Getenv e envVar = ''''
      \<and> Stat e (wellKnownFile e) = StatError er"
  then show "getTokenSource e filename aud = Inl er"
    by (simp add: getTokenSource_def Let_def)
next
  fix er
  assume "filename = '''' \<and> Getenv e envVar = ''''
      \<and> Stat e (wellKnownFile e) = StatNotExist er \<and> OnGCE e"
  then show "getTokenSource e filename aud
      = Inr (MetadataTokenSource (newMetadataTokenSource aud))"
    by (simp add: getTokenSource_def Let_def)
next
  fix er
  assume "filename = '''' \<and> Getenv e envVar = ''''
      \<and> Stat e (wellKnownFile e) = StatNotExist er \<and> \<not> OnGCE e"
  then show "getTokenSource e filename aud
      = Inl (Err ''unable to determine credentials source'')"
    by (simp add: getTokenSource_def Let_def)
qed

theorem credential_resolution_witness:
  "''/key.json'' \<noteq> ''''
   \<and> getTokenSource test_env ''/key.json'' ''test@example.com'' =
       Inr (ConfigTokenSource (test_config\<lparr>Scopes := [], UseIDToken := True,
              cfg_PrivateClaims := [(''target_audience'', ''test@example.com'')]\<rparr>))
   \<and> Getenv envvar_env envVar = ''/key.json''
   \<and> getTokenSource envvar_env '''' ''test@example.com'' =
       Inr (ConfigTokenSource (test_config\<lparr>Scopes := [], UseIDToken := True,
              cfg_PrivateClaims := [(''target_audience'', ''test@example.com'')]\<rparr>))
   \<and> Getenv wellknown_env envVar = ''''
   \<and> Stat wellknown_env (wellKnownFile wellknown_env) = StatOK
   \<and> wellKnownFile wellknown_env = ''/root/.config/gcloud/application_default_credentials.json''
   \<and> getTokenSource wellknown_env '''' ''test@example.com'' =
       Inr (ConfigTokenSource (test_config\<lparr>Scopes := [], UseIDToken := True,
              cfg_PrivateClaims := [(''target_audience'', ''test@example.com'')]\<rparr>))
   \<and> Getenv denied_env envVar = ''''
   \<and> Stat denied_env (wellKnownFile denied_env) = StatError (Err ''permission denied'')
   \<and> getTokenSource denied_env '''' ''test@example.com'' = Inl (Err ''permission denied'')
   \<and> Getenv test_env envVar = ''''
   \<and> Stat test_env (wellKnownFile test_env) = StatNotExist (Err ''no such file or directory'')
   \<and> OnGCE test_env
   \<and> getTokenSource test_env '''' ''test@example.com'' =
       Inr (MetadataTokenSource (newMetadataTokenSource ''test@example.com''))
   \<and> Getenv laptop_env envVar = ''''
   \<and> Stat laptop_env (wellKnownFile laptop_env) = StatNotExist (Err ''no such file or directory'')
   \<and> \<not> OnGCE laptop_env
   \<and> getTokenSource laptop_env '''' ''test@example.com'' =
       Inl (Err ''unable to determine credentials source'')"
proof -
  let ?aud = "''test@example.com''"
  let ?src = "Inr (ConfigTokenSource (test_config\<lparr>Scopes := [], UseIDToken := True,
              cfg_PrivateClaims := [(''target_audience'', ?aud)]\<rparr>)) :: err + oauth2_TokenSource"
  have file0: "source_from_file test_env ''/key.json'' ?aud = ?src"
    by (simp add: readCredentialsFile_def test_env_def test_config_def)
  have var: "Getenv envvar_env envVar = ''/key.json''"
    by (simp add: envvar_env_def envVar_def)
  have file_var: "source_from_file envvar_env ''/key.json'' ?aud = ?src"
    by (simp add: readCredentialsFile_def envvar_env_def test_env_def test_config_def)
  have wk: "Getenv wellknown_env envVar = ''''"
    "Stat wellknown_env (wellKnownFile wellknown_env) = StatOK"
    "wellKnownFile wellknown_env = ''/root/.config/gcloud/application_default_credentials.json''"
    by (simp_all add: wellknown_env_def wellKnownFile_def test_env_def envVar_def)
  have file_wk: "source_from_file wellknown_env
       ''/root/.config/gcloud/application_default_credentials.json'' ?aud = ?src"
    by (simp add: readCredentialsFile_def wellknown_env_def test_env_def test_config_def)
  have dn: "Getenv denied_env envVar = ''''"
    "Stat denied_env (wellKnownFile denied_env) = StatError (Err ''permission denied'')"
    by (simp_all add: denied_env_def test_env_def envVar_def)
  have gce: "Getenv test_env envVar = ''''"
    "Stat test_env (wellKnownFile test_env) = StatNotExist (Err ''no such file or directory'')"
    "OnGCE test_env"
    by (simp_all add: test_env_def envVar_def)
  have lap: "Getenv laptop_env envVar = ''''"
    "Stat laptop_env (wellKnownFile laptop_env) = StatNotExist (Err ''no such file or directory'')"
    "\<not> OnGCE laptop_env"
    by (simp_all add: laptop_env_def test_env_def envVar_def)
  have r1: "getTokenSource test_env ''/key.json'' ?aud = ?src"
    using credential_resolution [of "''/key.json''" test_env ?aud] file0 by simp
  have r2: "getTokenSource envvar_env '''' ?aud = ?src"
    using credential_resolution [of "''''" envvar_env ?aud] var file_var by simp
  have r3: "getTokenSource wellknown_env '''' ?aud = ?src"
    using credential_resolution [of "''''" wellknown_env ?aud] wk file_wk by simp
  have r4: "getTokenSource denied_env '''' ?aud = Inl (Err ''permission denied'')"
    using credential_resolution [of "''''" denied_env ?aud] dn by simp
  have r5: "getTokenSource test_env '''' ?aud
      = Inr (MetadataTokenSource (newMetadataTokenSource ?aud))"
    using credential_resolution [of "''''" test_env ?aud] gce by simp
  have r6: "getTokenSource laptop_env '''' ?aud
      = Inl (Err ''unable to determine credentials source'')"
    using credential_resolution [of "''''" laptop_env ?aud] lap by simp
  show ?thesis
    using var wk dn gce lap r1 r2 r3 r4 r5 r6 by simp
qed

section \<open>Construction\<close>

lemma exchanges_append [simp]: "exchanges (w @ v) = exchanges w + exchanges v"
  by (simp add: exchanges_def)

lemma exchanges_Cons [simp]:
  "exchanges (ev # w) = (if is_exchange ev then 1 else 0) + exchanges w"
  by (simp add: exchanges_def)

lemma exchanges_Nil [simp]: "exchanges [] = 0"
  by (simp add: exchanges_def)

lemma tokenSource_Token_exchanges:
  assumes "tokenSource_Token e key i w = (r, w1)"
  shows "exchanges w1 \<le> exchanges w + 1"
    and "r = Inr tok \<Longrightarrow> exchanges w1 = exchanges w + 1"
  using assms
  by (auto simp: tokenSource_Token_def time_Now_def Encode_def PostForm_def Let_def
      split: option.splits sum.splits)

lemma Token_cached:
  assumes "tokenSource i = Some r" and "t r = Some tok"
    and "token_valid (expiryDelta e) tok (clock e (length w))"
  shows "Token e i w = (Inr tok, i, w @ [EvNow])"
  using assms
  by (simp add: Token_def reuseTokenSource_Token_def time_Now_def)

lemma tokenSource_Token_unsigned:
  assumes "jwt i = Some j"
    and "jws_Encode e request_header (request_claims j (audience i) (clock e (length w))) key
           = Inl er"
  shows "fst (tokenSource_Token e key i w) = Inl (Wrap er ''failed to encode request'')"
  using assms
  by (simp add: tokenSource_Token_def time_Now_def Encode_def Unix_plus_hour time_Add_def
      sint_Hour Let_def)

lemma tokenSource_Token_fails:
  assumes "jwt i = Some j"
  shows "(\<exists>er. fst (tokenSource_Token e key i w) = Inl er) =
    ((\<exists>er. jws_Encode e request_header (request_claims j (audience i) (clock e (length w))) key
            = Inl er)
     \<or> (\<exists>msg. jws_Encode e request_header (request_claims j (audience i) (clock e (length w)))
                 key = Inr msg
           \<and> ((\<exists>er. postFormer i (length w + 2) TokenURI (request_form msg) = Inl er)
              \<or> (\<exists>resp. postFormer i (length w + 2) TokenURI (request_form msg) = Inr resp
                    \<and> ((\<exists>er. Body resp = Inl er)
                       \<or> (\<exists>body er. Body resp = Inr body
                             \<and> json_Unmarshal e body = Inl er))))))"
proof (cases "jws_Encode e request_header
    (request_claims j (audience i) (clock e (length w))) key")
  case (Inl er)
  then show ?thesis
    using tokenSource_Token_unsigned [OF assms Inl] by simp
next
  case (Inr msg)
  then show ?thesis
    unfolding tokenSource_Token_posted [OF assms Inr]
    by (auto split: sum.splits)
qed

lemma test_fetch:
  "tokenSource_Token test_env test_key test_iap [] = (Inr test_token, test_history)"
  by (simp add: tokenSource_Token_def test_env_def test_iap_def test_config_def test_key_def
      testPortFormer_def test_token_def test_history_def time_Now_def Encode_def PostForm_def
      values_Set_def time_Add_def sint_Hour Unix_plus_hour)

lemma test_New_config:
  "New_config test_env ''test@example.com''
     [WithServiceAccount test_env ''service-account'', WithPostFormer testPortFormer] =
   Inr test_iap"
  by (simp add: New_config_def WithServiceAccount_def WithPostFormer_def test_env_def
      test_iap_def test_config_def)

lemma test_parseKey: "parseKey test_env (PrivateKey test_config) = Inr test_key"
  by (simp add: parseKey_def test_env_def test_config_def test_key_def)

text \<open>
  The claim C6 as written fails when the endpoint refuses the assertion with an error
  response whose body parses: the exchange has failed, and \<open>New\<close> returns no error but an
  \<open>IAP\<close> whose cache holds a token with an empty access token, which \<open>Token\<close> then
  hands out, again without an error.
\<close>

theorem refused_assertion_constructs:
  "errorPostFormer 2 TokenURI (request_form ''header.claims.signature'') =
     Inr \<lparr>StatusCode = 400, Body = Inr error_body\<rparr>
   \<and> error_response \<lparr>StatusCode = 400, Body = Inr error_body\<rparr>
   \<and> New error_env ''test@example.com''
        [WithServiceAccount error_env ''service-account'', WithPostFormer errorPostFormer] [] =
       (Inr refused_iap, test_history)
   \<and> exchanges test_history = 1
   \<and> AccessToken refused_token = ''''
   \<and> Token error_env refused_iap test_history =
       (Inr refused_token, refused_iap, test_history @ [EvNow])"
  by (simp add: New_def New_config_def WithServiceAccount_def WithPostFormer_def parseKey_def
      Token_def reuseTokenSource_Token_def token_valid_def
      tokenSource_Token_def time_Now_def Encode_def PostForm_def values_Set_def time_Add_def
      sint_Hour Unix_plus_hour
      error_env_def test_env_def errorPostFormer_def error_response_def
      refused_iap_def refused_token_def test_history_def test_config_def test_key_def)

text \<open>
  C6, amended. In the signing flow, once the configuration is loaded and its key parsed,
  \<open>New\<close> fetches a token before it returns. When that fetch returns an error, \<open>New\<close>
  returns it, wrapped as "failed to get token", and no \<open>IAP\<close>; this happens exactly when
  the assertion cannot be signed, the POST fails, or the body of the response cannot be read
  or parsed. When the fetch returns a token, exactly one exchange has been made, the
  \<open>IAP\<close> returned holds the fetched token as its cached token, and a call of \<open>Token\<close>
  while that token is valid returns it without another exchange. An error response whose
  body parses is no error of the fetch, and does not surface at construction.
\<close>

theorem New_eager_exchange:
  assumes "New_config e aud opts = Inr i"
    and "jwt i = Some j"
    and "parseKey e (PrivateKey j) = Inr key"
  shows "(\<forall>er w1. tokenSource_Token e key i w = (Inl er, w1) \<longrightarrow>
            New e aud opts w = (Inl (Wrap er ''failed to get token''), w1)
            \<and> exchanges w1 \<le> exchanges w + 1)
    \<and> (\<forall>tok w1. tokenSource_Token e key i w = (Inr tok, w1) \<longrightarrow>
            New e aud opts w = (Inr (i\<lparr>tokenSource := Some \<lparr>t = Some tok, new = key\<rparr>\<rparr>), w1)
            \<and> exchanges w1 = exchanges w + 1
            \<and> (token_valid (expiryDelta e) tok (clock e (length w1)) \<longrightarrow>
                 Token e (i\<lparr>tokenSource := Some \<lparr>t = Some tok, new = key\<rparr>\<rparr>) w1 =
                   (Inr tok, i\<lparr>tokenSource := Some \<lparr>t = Some tok, new = key\<rparr>\<rparr>,
                    w1 @ [EvNow])))
    \<and> ((\<exists>er. fst (New e aud opts w) = Inl er) =
         ((\<exists>er. jws_Encode e request_header
                   (request_claims j (audience i) (clock e (length w))) key = Inl er)
          \<or> (\<exists>msg. jws_Encode e request_header
                      (request_claims j (audience i) (clock e (length w))) key = Inr msg
                \<and> ((\<exists>er. postFormer i (length w + 2) TokenURI (request_form msg) = Inl er)
                   \<or> (\<exists>resp. postFormer i (length w + 2) TokenURI (request_form msg)
                                = Inr resp
                         \<and> ((\<exists>er. Body resp = Inl er)
                            \<or> (\<exists>body er. Body resp = Inr body
                                  \<and> json_Unmarshal e body = Inl er)))))))"
proof (intro conjI allI impI)
  fix er w1
  assume f: "tokenSource_Token e key i w = (Inl er, w1)"
  show "New e aud opts w = (Inl (Wrap er ''failed to get token''), w1)"
    using assms f by (simp add: New_def)
  show "exchanges w1 \<le> exchanges w + 1"
    using f by (rule tokenSource_Token_exchanges(1))
next
  fix tok w1
  assume f: "tokenSource_Token e key i w = (Inr tok, w1)"
  show "New e aud opts w = (Inr (i\<lparr>tokenSource := Some \<lparr>t = Some tok, new = key\<rparr>\<rparr>), w1)"
    using assms f by (simp add: New_def)
  show "exchanges w1 = exchanges w + 1"
    using f by (rule tokenSource_Token_exchanges(2)) simp
  assume "token_valid (expiryDelta e) tok (clock e (length w1))"
  then show "Token e (i\<lparr>tokenSource := Some \<lparr>t = Some tok, new = key\<rparr>\<rparr>) w1 =
      (Inr tok, i\<lparr>tokenSource := Some \<lparr>t = Some tok, new = key\<rparr>\<rparr>, w1 @ [EvNow])"
    by (intro Token_cached [where r = "\<lparr>t = Some tok, new = key\<rparr>"]) simp_all
next
  have "(\<exists>er. fst (New e aud opts w) = Inl er)
      = (\<exists>er. fst (tokenSource_Token e key i w) = Inl er)"
    using assms by (auto simp: New_def split: prod.splits sum.splits)
  then show "(\<exists>er. fst (New e aud opts w) = Inl er) =
         ((\<exists>er. jws_Encode e request_header
                   (request_claims j (audience i) (clock e (length w))) key = Inl er)
          \<or> (\<exists>msg. jws_Encode e request_header
                      (request_claims j (audience i) (clock e (length w))) key = Inr msg
                \<and> ((\<exists>er. postFormer i (length w + 2) TokenURI (request_form msg) = Inl er)
                   \<or> (\<exists>resp. postFormer i (length w + 2) TokenURI (request_form msg)
                                = Inr resp
                         \<and> ((\<exists>er. Body resp = Inl er)
                            \<or> (\<exists>body er. Body resp = Inr body
                                  \<and> json_Unmarshal e body = Inl er))))))"
    by (simp only: tokenSource_Token_fails [OF assms(2)])
qed

theorem New_eager_exchange_witness:
  "New_config test_env ''test@example.com''
     [WithServiceAccount test_env ''service-account'', WithPostFormer testPortFormer] =
     Inr test_iap
   \<and> jwt test_iap = Some test_config
   \<and> parseKey test_env (PrivateKey test_config) = Inr test_key
   \<and> tokenSource_Token test_env test_key test_iap [] = (Inr test_token, test_history)
   \<and> New test_env ''test@example.com''
        [WithServiceAccount test_env ''service-account'', WithPostFormer testPortFormer] [] =
       (Inr (test_iap\<lparr>tokenSource := Some \<lparr>t = Some test_token, new = test_key\<rparr>\<rparr>),
        test_history)
   \<and> exchanges test_history = exchanges [] + 1
   \<and> token_valid (expiryDelta test_env) test_token (clock test_env (length test_history))
   \<and> Token test_env (test_iap\<lparr>tokenSource := Some \<lparr>t = Some test_token, new = test_key\<rparr>\<rparr>)
        test_history =
       (Inr test_token,
        test_iap\<lparr>tokenSource := Some \<lparr>t = Some test_token, new = test_key\<rparr>\<rparr>,
        test_history @ [EvNow])
   \<and> New_config test_env ''test@example.com'' [WithServiceAccount test_env ''service-account'']
       = Inr (test_iap\<lparr>postFormer := httpClient test_env\<rparr>)
   \<and> tokenSource_Token test_env test_key (test_iap\<lparr>postFormer := httpClient test_env\<rparr>) [] =
       (Inl (Wrap (Err ''connection refused'') ''failed to POST token request''), test_history)
   \<and> New test_env ''test@example.com'' [WithServiceAccount test_env ''service-account''] [] =
       (Inl (Wrap (Wrap (Err ''connection refused'') ''failed to POST token request'')
               ''failed to get token''), test_history)"
proof -
  let ?opts = "[WithServiceAccount test_env ''service-account'', WithPostFormer testPortFormer]"
  let ?down = "test_iap\<lparr>postFormer := httpClient test_env\<rparr>"
  have valid: "token_valid (expiryDelta test_env) test_token
      (clock test_env (length test_history))"
    by (simp add: token_valid_def test_env_def test_token_def)
  have cfg': "New_config test_env ''test@example.com''
      [WithServiceAccount test_env ''service-account''] = Inr ?down"
    by (simp add: New_config_def WithServiceAccount_def test_env_def test_iap_def
        test_config_def)
  have jwt': "jwt ?down = Some test_config"
    by (simp add: test_iap_def)
  have fetch': "tokenSource_Token test_env test_key ?down [] =
      (Inl (Wrap (Err ''connection refused'') ''failed to POST token request''), test_history)"
    by (simp add: tokenSource_Token_def test_env_def test_iap_def test_config_def test_key_def
        test_history_def time_Now_def Encode_def PostForm_def
        values_Set_def time_Add_def sint_Hour Unix_plus_hour)
  note ok = New_eager_exchange [OF test_New_config test_iap_jwt test_parseKey, of "[]"]
  note ko = New_eager_exchange [OF cfg' jwt' test_parseKey, of "[]"]
  show ?thesis
    using test_New_config test_iap_jwt test_parseKey test_fetch valid cfg' fetch' ok ko
    by simp
qed

section \<open>The token type\<close>









section \<open>Reuse of the cached token\<close>

lemma metadataTokenSource_Token_exchanges:
  "exchanges (snd (metadataTokenSource_Token e m w)) = exchanges w + 1"
  by (simp add: metadataTokenSource_Token_def Get_def time_Now_def split: sum.splits)

lemma md_Token_first:
  assumes "md_Token e (newMetadataTokenSource aud) w0 = (Inr tok, r1, w1)"
  shows "r1 = \<lparr>t = Some tok, new = \<lparr>md_audience = aud\<rparr>\<rparr>"
    and "metadataTokenSource_Token e \<lparr>md_audience = aud\<rparr> w0 = (Inr tok, w1)"
  using assms
  by (auto simp: md_Token_def newMetadataTokenSource_def reuseTokenSource_Token_def refresh_def
      split: prod.splits sum.splits)

text \<open>
  C3. In the metadata flow, on a source fresh from \<open>newMetadataTokenSource\<close>: a first
  call of \<open>Token\<close> that returns a token has made exactly one exchange. A second call while
  the cached token is valid (the clock has not passed its expiry less the safety margin)
  returns the cached token and makes no exchange, only a reading of the clock: one exchange
  for the two calls. A second call after the cached token has expired makes a second
  exchange.
\<close>

theorem cached_token_reused:
  assumes "md_Token e (newMetadataTokenSource aud) w0 = (Inr tok, r1, w1)"
  shows "exchanges w1 = exchanges w0 + 1
    \<and> (token_valid (expiryDelta e) tok (clock e (length w1)) \<longrightarrow>
         md_Token e r1 w1 = (Inr tok, r1, w1 @ [EvNow])
         \<and> exchanges (w1 @ [EvNow]) = exchanges w0 + 1)
    \<and> (0 \<le> expiryDelta e \<and> Expiry tok < clock e (length w1) \<longrightarrow>
         (\<exists>res r2 w2. md_Token e r1 w1 = (res, r2, w2) \<and> exchanges w2 = exchanges w0 + 2))"
proof (intro conjI impI)
  let ?m = "\<lparr>md_audience = aud\<rparr>"
  note r1 = md_Token_first(1) [OF assms]
  note f = md_Token_first(2) [OF assms]
  show one: "exchanges w1 = exchanges w0 + 1"
    using metadataTokenSource_Token_exchanges [of e ?m w0] by (simp add: f)
  {
    assume "token_valid (expiryDelta e) tok (clock e (length w1))"
    then show "md_Token e r1 w1 = (Inr tok, r1, w1 @ [EvNow])"
      by (simp add: md_Token_def r1 reuseTokenSource_Token_def time_Now_def)
    show "exchanges (w1 @ [EvNow]) = exchanges w0 + 1"
      using one by simp
  }
  assume "0 \<le> expiryDelta e \<and> Expiry tok < clock e (length w1)"
  then have stale: "\<not> token_valid (expiryDelta e) tok (clock e (length w1))"
    by (simp add: token_valid_def)
  obtain res w2 where f2: "metadataTokenSource_Token e ?m (w1 @ [EvNow]) = (res, w2)"
    by (cases "metadataTokenSource_Token e ?m (w1 @ [EvNow])")
  have two: "exchanges w2 = exchanges w0 + 2"
    using metadataTokenSource_Token_exchanges [of e ?m "w1 @ [EvNow]"] one by (simp add: f2)
  have "\<exists>r2. md_Token e r1 w1 = (res, r2, w2)"
    using stale f2
    by (simp add: md_Token_def r1 reuseTokenSource_Token_def refresh_def time_Now_def
        split: sum.splits)
  with two show "\<exists>res r2 w2. md_Token e r1 w1 = (res, r2, w2) \<and> exchanges w2 = exchanges w0 + 2"
    by blast
qed

theorem cached_token_reused_witness:
  "md_Token test_env (newMetadataTokenSource ''test@example.com'') [] =
     (Inr metadata_token, metadata_source, metadata_history)
   \<and> exchanges metadata_history = exchanges [] + 1
   \<and> token_valid (expiryDelta test_env) metadata_token
        (clock test_env (length metadata_history))
   \<and> md_Token test_env metadata_source metadata_history =
       (Inr metadata_token, metadata_source, metadata_history @ [EvNow])
   \<and> exchanges (metadata_history @ [EvNow]) = exchanges [] + 1
   \<and> md_Token later_env (newMetadataTokenSource ''test@example.com'') [] =
     (Inr metadata_token, metadata_source, metadata_history)
   \<and> 0 \<le> expiryDelta later_env
   \<and> Expiry metadata_token < clock later_env (length metadata_history)
   \<and> (\<exists>res r2 w2. md_Token later_env metadata_source metadata_history = (res, r2, w2)
         \<and> exchanges w2 = exchanges [] + 2)"
proof -
  have first: "md_Token test_env (newMetadataTokenSource ''test@example.com'') [] =
      (Inr metadata_token, metadata_source, metadata_history)"
    by (simp add: md_Token_def newMetadataTokenSource_def reuseTokenSource_Token_def
        refresh_def metadataTokenSource_Token_def Get_def time_Now_def time_Add_def
        Minute_def Second_def test_env_def metadata_token_def metadata_source_def
        metadata_history_def)
  have first': "md_Token later_env (newMetadataTokenSource ''test@example.com'') [] =
      (Inr metadata_token, metadata_source, metadata_history)"
    by (simp add: md_Token_def newMetadataTokenSource_def reuseTokenSource_Token_def
        refresh_def metadataTokenSource_Token_def Get_def time_Now_def time_Add_def
        Minute_def Second_def later_env_def test_env_def metadata_token_def
        metadata_source_def metadata_history_def)
  have valid: "token_valid (expiryDelta test_env) metadata_token
      (clock test_env (length metadata_history))"
    by (simp add: token_valid_def test_env_def metadata_token_def)
  have stale: "0 \<le> expiryDelta later_env"
    "Expiry metadata_token < clock later_env (length metadata_history)"
    by (simp_all add: later_env_def test_env_def metadata_token_def metadata_history_def)
  show ?thesis
    using first first' valid stale cached_token_reused [OF first] cached_token_reused [OF first']
    by simp
qed

end
